theory Spec2Isabelle
  imports Main
begin

section \<open>JavaScript strings\<close>

text \<open>
  A JavaScript string is a sequence of UTF-16 code units. A code unit is modelled as a
  natural number and a string as a list of them, so that the note sign U+266A, the
  no-break space U+00A0 and the other non-ASCII characters the source tests for are single
  elements, as they are for the regular expressions and for \<^verbatim>\<open>trim\<close> of the source.
  \<open>js\<close> turns an ASCII literal into such a string.
\<close>

type_synonym jschar = nat
type_synonym jsstring = "nat list"

definition js :: "string \<Rightarrow> jsstring" where
  "js s = map of_char s"

text \<open>Decimal rendering of a non-negative integer, as a template literal renders a length.\<close>

fun showNat :: "nat \<Rightarrow> jsstring" where
  "showNat n = (if n < 10 then [48 + n] else showNat (n div 10) @ [48 + n mod 10])"

declare showNat.simps [simp del]

text \<open>\<^verbatim>\<open>Array.prototype.join\<close>: the elements with the separator between them.\<close>

fun join :: "jsstring \<Rightarrow> jsstring list \<Rightarrow> jsstring" where
  "join sep [] = []"
| "join sep [x] = x"
| "join sep (x # y # ys) = x @ sep @ join sep (y # ys)"

section \<open>Providers and the fallback executor (providers/index.ts)\<close>

datatype transcript_source = SourceApi | SourceYtdlp | SourceWhisper

record transcript_result =
  tr_text :: jsstring
  tr_title :: "jsstring option"
  tr_language :: "jsstring option"
  tr_source :: transcript_source

text \<open>
  The outcome of awaiting a promise: it resolves with a value or rejects with an error, of
  which the model keeps the message.
\<close>

datatype 'a attempt = Returns 'a | Raises jsstring

text \<open>
  A \<^verbatim>\<open>TranscriptProvider\<close>: its name, what \<^verbatim>\<open>available()\<close> gives and what
  \<^verbatim>\<open>fetch(videoId)\<close> gives (\<open>None\<close> is the source's \<^verbatim>\<open>null\<close>).
\<close>

record provider =
  p_name :: jsstring
  p_available :: "bool attempt"
  p_fetch :: "jsstring \<Rightarrow> transcript_result option attempt"

text \<open>
  The state \<^verbatim>\<open>fetchTranscript\<close> threads through its loop: the \<^verbatim>\<open>errors\<close> array, what
  was written to the diagnostic stream, and the provider methods invoked so far.
\<close>

datatype call = CallAvailable jsstring | CallFetch jsstring jsstring

record fetch_state =
  errors :: "(jsstring \<times> jsstring) list"
  stderr :: "jsstring list"
  calls :: "call list"

definition init_state :: fetch_state where
  "init_state = \<lparr>errors = [], stderr = [], calls = []\<rparr>"

text \<open>
  The \<^verbatim>\<open>catch\<close> block of the loop: the error is appended to \<^verbatim>\<open>errors\<close>; with
  \<^verbatim>\<open>noFallback\<close> it is thrown again, otherwise a line goes to the diagnostic stream and
  the loop goes on (\<open>None\<close>).
\<close>

definition catchBlock ::
  "bool \<Rightarrow> provider \<Rightarrow> jsstring \<Rightarrow> fetch_state
    \<Rightarrow> transcript_result attempt option \<times> fetch_state" where
  "catchBlock noFallback p e st =
     (let st1 = st\<lparr>errors := errors st @ [(p_name p, e)]\<rparr>
      in if noFallback then (Some (Raises e), st1)
         else (None,
               st1\<lparr>stderr := stderr st1 @ [js ''['' @ p_name p @ js ''] '' @ e @ [10]]\<rparr>))"

text \<open>
  One iteration of \<^verbatim>\<open>for (const provider of providers)\<close>. \<open>Some\<close> leaves the function
  (a returned result or a thrown error), \<open>None\<close> goes to the next provider.
\<close>

definition loopBody ::
  "jsstring \<Rightarrow> bool \<Rightarrow> provider \<Rightarrow> fetch_state
    \<Rightarrow> transcript_result attempt option \<times> fetch_state" where
  "loopBody videoId noFallback p st =
     (let st1 = st\<lparr>calls := calls st @ [CallAvailable (p_name p)]\<rparr>
      in case p_available p of
           Raises e \<Rightarrow> catchBlock noFallback p e st1
         | Returns False \<Rightarrow> (None, st1)
         | Returns True \<Rightarrow>
             (let st2 = st1\<lparr>calls := calls st1 @ [CallFetch (p_name p) videoId]\<rparr>
              in case p_fetch p videoId of
                   Raises e \<Rightarrow> catchBlock noFallback p e st2
                 | Returns (Some result) \<Rightarrow> (Some (Returns result), st2)
                 | Returns None \<Rightarrow>
                     if noFallback
                     then catchBlock noFallback p
                            (js ''['' @ p_name p @ js ''] No transcript available for video ''
                               @ videoId) st2
                     else (None, st2)))"

fun fetchLoop ::
  "jsstring \<Rightarrow> bool \<Rightarrow> provider list \<Rightarrow> fetch_state
    \<Rightarrow> transcript_result attempt option \<times> fetch_state" where
  "fetchLoop videoId noFallback [] st = (None, st)"
| "fetchLoop videoId noFallback (p # ps) st =
     (case loopBody videoId noFallback p st of
        (Some out, st') \<Rightarrow> (Some out, st')
      | (None, st') \<Rightarrow> fetchLoop videoId noFallback ps st')"

definition errorLine :: "jsstring \<times> jsstring \<Rightarrow> jsstring" where
  "errorLine e = js ''  - '' @ fst e @ js '': '' @ snd e"

definition allFailedMessage :: "jsstring \<Rightarrow> nat \<Rightarrow> (jsstring \<times> jsstring) list \<Rightarrow> jsstring" where
  "allFailedMessage videoId n errs =
     js ''Failed to get transcript for video '' @ videoId @ js ''.'' @ [10] @
     js ''Tried '' @ showNat n @ js '' provider(s):'' @ [10] @ join [10] (map errorLine errs)"

definition fetchTranscript ::
  "jsstring \<Rightarrow> provider list \<Rightarrow> bool \<Rightarrow> transcript_result attempt \<times> fetch_state" where
  "fetchTranscript videoId providers noFallback =
     (case fetchLoop videoId noFallback providers init_state of
        (Some out, st) \<Rightarrow> (out, st)
      | (None, st) \<Rightarrow>
          (Raises (allFailedMessage videoId (length providers) (errors st)), st))"

text \<open>
  \<^verbatim>\<open>String.prototype.includes\<close>: does the pattern occur in the string.
\<close>

fun str_includes :: "jsstring \<Rightarrow> jsstring \<Rightarrow> bool" where
  "str_includes [] pat = (pat = [])"
| "str_includes (c # cs) pat = (take (length pat) (c # cs) = pat \<or> str_includes cs pat)"

subsection \<open>Example providers\<close>

text \<open>
  Four providers for concrete runs: one that is available and has no transcript, one whose
  fetch raises, one that is not available, and one that returns a result.
\<close>

definition absentProvider :: "jsstring \<Rightarrow> provider" where
  "absentProvider n = \<lparr>p_name = n, p_available = Returns True, p_fetch = (\<lambda>v. Returns None)\<rparr>"

definition failingProvider :: "jsstring \<Rightarrow> jsstring \<Rightarrow> provider" where
  "failingProvider n e = \<lparr>p_name = n, p_available = Returns True, p_fetch = (\<lambda>v. Raises e)\<rparr>"

definition unavailableProvider :: "jsstring \<Rightarrow> provider" where
  "unavailableProvider n = \<lparr>p_name = n, p_available = Returns False, p_fetch = (\<lambda>v. Raises (js ''not installed''))\<rparr>"

definition helloResult :: "transcript_source \<Rightarrow> transcript_result" where
  "helloResult s = \<lparr>tr_text = js ''hello'', tr_title = None, tr_language = None, tr_source = s\<rparr>"

definition okProvider :: "jsstring \<Rightarrow> transcript_source \<Rightarrow> provider" where
  "okProvider n s = \<lparr>p_name = n, p_available = Returns True,
     p_fetch = (\<lambda>v. Returns (Some (helloResult s)))\<rparr>"

subsection \<open>What a provider contributes to the attempt log\<close>

text \<open>
  \<open>raisedError\<close> is the error a provider raises when the loop reaches it (from its
  availability check or, when that passed, from its fetch); \<open>raisedErrors\<close> collects them
  over a chain with the provider names; \<open>noResult\<close> says that the provider is tried
  and gives no result: it raises, or it fetches and returns \<^verbatim>\<open>null\<close>.
\<close>

definition raisedError :: "provider \<Rightarrow> jsstring \<Rightarrow> jsstring option" where
  "raisedError p videoId =
     (case p_available p of
        Raises e \<Rightarrow> Some e
      | Returns False \<Rightarrow> None
      | Returns True \<Rightarrow> (case p_fetch p videoId of Raises e \<Rightarrow> Some e | Returns r \<Rightarrow> None))"

definition raisedErrors :: "provider list \<Rightarrow> jsstring \<Rightarrow> (jsstring \<times> jsstring) list" where
  "raisedErrors ps videoId =
     List.map_filter (\<lambda>p. map_option (Pair (p_name p)) (raisedError p videoId)) ps"

definition noResult :: "provider \<Rightarrow> jsstring \<Rightarrow> bool" where
  "noResult p videoId =
     (case p_available p of
        Raises e \<Rightarrow> True
      | Returns False \<Rightarrow> False
      | Returns True \<Rightarrow> (case p_fetch p videoId of Raises e \<Rightarrow> True | Returns r \<Rightarrow> r = None))"


section \<open>Tool detection (tools.ts)\<close>

text \<open>
  The white space that \<^verbatim>\<open>String.prototype.trim\<close> removes and that \<^verbatim>\<open>\s\<close> matches: the
  ECMAScript WhiteSpace and LineTerminator code points.
\<close>

definition isWhiteSpace :: "jschar \<Rightarrow> bool" where
  "isWhiteSpace c \<longleftrightarrow>
     c \<in> {9, 10, 11, 12, 13, 32, 160, 5760, 8232, 8233, 8239, 8287, 12288, 65279}
     \<or> (8192 \<le> c \<and> c \<le> 8202)"

definition trim :: "jsstring \<Rightarrow> jsstring" where
  "trim s = rev (dropWhile isWhiteSpace (rev (dropWhile isWhiteSpace s)))"

text \<open>
  What the tool detection reads from the host: the output of \<^verbatim>\<open>which cmd\<close> (or its
  failure), the output of \<^verbatim>\<open>path --help 2>&1\<close> (or its failure), and the process
  environment.
\<close>

record host =
  which_output :: "jsstring \<Rightarrow> jsstring attempt"
  help_output :: "jsstring \<Rightarrow> jsstring attempt"
  env :: "jsstring \<Rightarrow> jsstring option"

datatype WhisperBackend =
    WhisperCpp jsstring
  | WhisperCli jsstring
  | MlxWhisper jsstring
  | OpenaiApi

definition commandExists :: "host \<Rightarrow> jsstring \<Rightarrow> jsstring option" where
  "commandExists h cmd =
     (case which_output h cmd of
        Raises e \<Rightarrow> None
      | Returns stdout \<Rightarrow> (if trim stdout = [] then None else Some (trim stdout)))"

definition hasYtdlp :: "host \<Rightarrow> bool" where
  "hasYtdlp h = (commandExists h (js ''yt-dlp'') \<noteq> None)"

definition detectWhisper :: "host \<Rightarrow> WhisperBackend option" where
  "detectWhisper h =
     (case commandExists h (js ''whisper-cpp'') of
        Some whisperCppPath \<Rightarrow> Some (WhisperCpp whisperCppPath)
      | None \<Rightarrow>
         (case commandExists h (js ''whisper'') of
            Some mainPath \<Rightarrow>
              (case help_output h mainPath of
                 Returns stdout \<Rightarrow>
                   if str_includes stdout (js ''whisper.cpp'')
                   then Some (WhisperCpp mainPath)
                   else Some (WhisperCli mainPath)
               | Raises e \<Rightarrow> Some (WhisperCli mainPath))
          | None \<Rightarrow>
             (case commandExists h (js ''mlx_whisper'') of
                Some mlxWhisperPath \<Rightarrow> Some (MlxWhisper mlxWhisperPath)
              | None \<Rightarrow>
                 (case env h (js ''OPENAI_API_KEY'') of
                    Some (c # cs) \<Rightarrow> Some OpenaiApi
                  | _ \<Rightarrow> None))))"

section \<open>Provider resolution (api.ts, providers/index.ts)\<close>

definition DEFAULT_API_URL :: jsstring where
  "DEFAULT_API_URL = js ''https://www.youtube-transcript.io/api/transcripts''"

text \<open>
  \<^verbatim>\<open>a || b\<close> where \<open>a\<close> is a string or \<^verbatim>\<open>undefined\<close>: \<open>a\<close> when it is a non-empty string,
  otherwise \<open>b\<close>.
\<close>

fun strOr :: "jsstring option \<Rightarrow> jsstring \<Rightarrow> jsstring" where
  "strOr (Some (c # cs)) b = c # cs"
| "strOr a b = b"

definition resolveApiUrl :: "host \<Rightarrow> jsstring option \<Rightarrow> jsstring" where
  "resolveApiUrl h cliValue =
     strOr (map_option trim cliValue)
       (strOr (map_option trim (env h (js ''YOUTUBE_TRANSCRIPT_API_URL''))) DEFAULT_API_URL)"

definition resolveApiToken :: "host \<Rightarrow> jsstring option \<Rightarrow> jsstring" where
  "resolveApiToken h cliValue =
     strOr (map_option trim cliValue)
       (strOr (map_option trim (env h (js ''YOUTUBE_TRANSCRIPT_API_TOKEN''))) [])"

datatype provider_choice = ChooseApi | ChooseYtdlp | ChooseWhisper | ChooseAuto

record provider_options =
  opt_token :: "jsstring option"
  opt_apiUrl :: "jsstring option"
  opt_provider :: "provider_choice option"
  opt_whisperModel :: "jsstring option"
  opt_lang :: "jsstring option"
  opt_noFallback :: "bool option"

text \<open>
  The provider objects the resolver constructs, with the fields their constructors store
  (\<^verbatim>\<open>WhisperProvider\<close> stores \<^verbatim>\<open>model || "base"\<close>). Constructing one calls none of its
  methods.
\<close>

datatype provider_instance =
    ApiProvider jsstring jsstring
  | YtdlpProvider "jsstring option"
  | WhisperProvider WhisperBackend jsstring "jsstring option"

definition newWhisperProvider ::
  "WhisperBackend \<Rightarrow> jsstring option \<Rightarrow> jsstring option \<Rightarrow> provider_instance" where
  "newWhisperProvider backend model lang = WhisperProvider backend (strOr model (js ''base'')) lang"


record resolved_providers =
  providers :: "provider_instance list"
  warnings :: "jsstring list"

definition apiTokenRequired :: jsstring where
  "apiTokenRequired =
     js ''API provider requires a token. Set YOUTUBE_TRANSCRIPT_API_TOKEN or use --token.''"

definition ytdlpNotInstalled :: jsstring where
  "ytdlpNotInstalled =
     js ''yt-dlp provider requested but yt-dlp is not installed.'' @ [10] @
     js ''Install it with: brew install yt-dlp''"

definition whisperNeedsYtdlp :: jsstring where
  "whisperNeedsYtdlp =
     js ''Whisper provider requires yt-dlp for audio download.'' @ [10] @
     js ''Install it with: brew install yt-dlp''"

definition whisperNoBackend :: jsstring where
  "whisperNoBackend =
     js ''Whisper provider requested but no whisper backend is available.'' @ [10] @
     js ''Install one of:'' @ [10] @
     js ''  - whisper.cpp: brew install whisper-cpp'' @ [10] @
     js ''  - OpenAI whisper: pip install openai-whisper'' @ [10] @
     js ''  - MLX whisper: pip install mlx-whisper'' @ [10] @
     js ''  - Or set OPENAI_API_KEY for API transcription''"

definition noProviderAvailable :: jsstring where
  "noProviderAvailable =
     js ''No transcript provider available.'' @ [10, 10] @
     js ''To fix this, either:'' @ [10] @
     js ''  - Set YOUTUBE_TRANSCRIPT_API_TOKEN for API access'' @ [10] @
     js ''  - Install yt-dlp: brew install yt-dlp'' @ [10] @
     js ''  - Install whisper: pip install openai-whisper''"

text \<open>
  \<^verbatim>\<open>resolveProviders\<close>: \<open>Inl\<close> is the message of the error it throws, \<open>Inr\<close> the chain and
  the warnings it returns.
\<close>

definition resolveProviders :: "host \<Rightarrow> provider_options \<Rightarrow> jsstring + resolved_providers" where
  "resolveProviders h options =
     (let token = resolveApiToken h (opt_token options);
          apiUrl = resolveApiUrl h (opt_apiUrl options);
          ytdlpAvailable = hasYtdlp h;
          whisperBackend = detectWhisper h
      in case opt_provider options of
           Some ChooseApi \<Rightarrow>
             if token = [] then Inl apiTokenRequired
             else Inr \<lparr>providers = [ApiProvider token apiUrl], warnings = []\<rparr>
         | Some ChooseYtdlp \<Rightarrow>
             if \<not> ytdlpAvailable then Inl ytdlpNotInstalled
             else Inr \<lparr>providers = [YtdlpProvider (opt_lang options)], warnings = []\<rparr>
         | Some ChooseWhisper \<Rightarrow>
             if \<not> ytdlpAvailable then Inl whisperNeedsYtdlp
             else (case whisperBackend of
                     None \<Rightarrow> Inl whisperNoBackend
                   | Some backend \<Rightarrow>
                       Inr \<lparr>providers =
                              [newWhisperProvider backend (opt_whisperModel options)
                                 (opt_lang options)],
                            warnings = []\<rparr>)
         | _ \<Rightarrow>
             (let providers1 = (if token \<noteq> [] then [ApiProvider token apiUrl] else []);
                  providers2 =
                    (if ytdlpAvailable
                     then providers1 @ [YtdlpProvider (opt_lang options)] @
                          (case whisperBackend of
                             Some backend \<Rightarrow>
                               [newWhisperProvider backend (opt_whisperModel options)
                                  (opt_lang options)]
                           | None \<Rightarrow> [])
                     else providers1)
              in if length providers2 = 0 then Inl noProviderAvailable
                 else Inr \<lparr>providers = providers2,
                           warnings =
                             (if token = []
                              then [js ''No API token set. Using yt-dlp for subtitles.'']
                              else []) @
                             (if \<not> ytdlpAvailable \<and> token \<noteq> []
                              then [js ''yt-dlp not found. No fallback if API fails.'']
                              else []) @
                             (if ytdlpAvailable \<and> whisperBackend = None
                              then [js ''No whisper backend found. Cannot transcribe videos without subtitles.'']
                              else [])\<rparr>))"

subsection \<open>Example hosts\<close>

text \<open>
  A host described by the tools it has on the path (name and the path \<^verbatim>\<open>which\<close> prints),
  the help texts of its binaries, and its environment variables.
\<close>

definition mkHost ::
  "(jsstring \<times> jsstring) list \<Rightarrow> (jsstring \<times> jsstring) list \<Rightarrow> (jsstring \<times> jsstring) list \<Rightarrow> host" where
  "mkHost tools helps vars =
     \<lparr>which_output = (\<lambda>cmd. case map_of tools cmd of
                                Some path \<Rightarrow> Returns (path @ [10])
                              | None \<Rightarrow> Raises (js ''Command failed: which '' @ cmd)),
      help_output = (\<lambda>path. case map_of helps path of
                                Some out \<Rightarrow> Returns out
                              | None \<Rightarrow> Raises (js ''Command failed: '' @ path @ js '' --help 2>&1'')),
      env = map_of vars\<rparr>"

definition autoOptions :: provider_options where
  "autoOptions = \<lparr>opt_token = None, opt_apiUrl = None, opt_provider = None,
     opt_whisperModel = None, opt_lang = None, opt_noFallback = None\<rparr>"

definition forced :: "provider_choice \<Rightarrow> provider_options" where
  "forced c = autoOptions\<lparr>opt_provider := Some c\<rparr>"

section \<open>Transcript extractor (normalize.ts)\<close>

text \<open>
  A value of type \<^verbatim>\<open>unknown\<close>: what \<^verbatim>\<open>response.json()\<close> or \<^verbatim>\<open>response.text()\<close> gives,
  and \<^verbatim>\<open>undefined\<close> for a property that is not there. An object is the list of its own
  properties, read with \<open>map_of\<close>; the numeric value of a number is never inspected.
\<close>

datatype jsvalue =
    JUndefined
  | JNull
  | JBool bool
  | JNumber int
  | JString jsstring
  | JArray "jsvalue list"
  | JObject "(jsstring \<times> jsvalue) list"

record transcript_item =
  item_id :: "jsstring option"
  item_title :: "jsstring option"
  item_text :: jsstring

text \<open>\<^verbatim>\<open>obj[key]\<close>, and \<^verbatim>\<open>item.text\<close> on any value that passed the object test.\<close>

definition getProp :: "(jsstring \<times> jsvalue) list \<Rightarrow> jsstring \<Rightarrow> jsvalue" where
  "getProp obj key = (case map_of obj key of Some v \<Rightarrow> v | None \<Rightarrow> JUndefined)"

fun propOf :: "jsvalue \<Rightarrow> jsstring \<Rightarrow> jsvalue" where
  "propOf (JObject obj) key = getProp obj key"
| "propOf v key = JUndefined"

text \<open>\<^verbatim>\<open>a ?? b\<close>.\<close>

fun nullishOr :: "jsvalue \<Rightarrow> jsvalue \<Rightarrow> jsvalue" where
  "nullishOr JUndefined b = b"
| "nullishOr JNull b = b"
| "nullishOr a b = a"

text \<open>\<^verbatim>\<open>typeof item === "string"\<close>, and the strings among a list of values.\<close>

fun isString :: "jsvalue \<Rightarrow> bool" where
  "isString (JString s) = True"
| "isString v = False"

fun stringsOf :: "jsvalue list \<Rightarrow> jsstring list" where
  "stringsOf [] = []"
| "stringsOf (JString s # vs) = s # stringsOf vs"
| "stringsOf (v # vs) = stringsOf vs"

text \<open>\<^verbatim>\<open>typeof item === "object" && item !== null && "text" in item\<close>: an array has no
  property \<^verbatim>\<open>text\<close>.\<close>

fun hasText :: "jsvalue \<Rightarrow> bool" where
  "hasText (JObject obj) = (map_of obj (js ''text'') \<noteq> None)"
| "hasText v = False"

text \<open>\<^verbatim>\<open>s || null\<close> for a string \<open>s\<close>; the truthy ones among strings and \<^verbatim>\<open>null\<close>s
  (\<^verbatim>\<open>filter(Boolean)\<close>); the first truthy one.\<close>

definition orNull :: "jsstring \<Rightarrow> jsstring option" where
  "orNull s = (if s = [] then None else Some s)"

fun truthyStrings :: "jsstring option list \<Rightarrow> jsstring list" where
  "truthyStrings [] = []"
| "truthyStrings (Some (c # cs) # xs) = (c # cs) # truthyStrings xs"
| "truthyStrings (x # xs) = truthyStrings xs"

fun firstTruthy :: "jsstring option list \<Rightarrow> jsstring option" where
  "firstTruthy [] = None"
| "firstTruthy (Some (c # cs) # xs) = Some (c # cs)"
| "firstTruthy (x # xs) = firstTruthy xs"

lemma size_getProp:
  "size (getProp obj key) \<le> size_list (size_prod (\<lambda>k. 0) size) obj"
proof (induction obj)
  case Nil
  show ?case by (simp add: getProp_def)
next
  case (Cons kv obj)
  then show ?case by (cases kv) (auto simp add: getProp_def split: option.splits)
qed

lemma size_nullishOr: "size a \<le> n \<Longrightarrow> size b \<le> n \<Longrightarrow> size (nullishOr a b) \<le> n"
  by (cases a) simp_all

function (sequential) extractTextFromUnknown :: "jsvalue \<Rightarrow> jsstring option" where
  "extractTextFromUnknown JUndefined = None"
| "extractTextFromUnknown JNull = None"
| "extractTextFromUnknown (JString s) = orNull (trim s)"
| "extractTextFromUnknown (JArray vs) =
     (if length vs = 0 then None
      else if list_all isString vs
      then orNull (join (js '' '') (filter (\<lambda>s. s \<noteq> []) (map trim (stringsOf vs))))
      else if list_all hasText vs
      then orNull (join (js '' '')
             (filter (\<lambda>s. s \<noteq> [])
                (map trim (stringsOf (map (\<lambda>item. propOf item (js ''text'')) vs)))))
      else (let fromEntries = truthyStrings (map extractTextFromUnknown vs)
            in if length fromEntries > 0 then Some (join (js '' '') fromEntries) else None))"
| "extractTextFromUnknown (JObject obj) =
     (case firstTruthy
             [extractTextFromUnknown
                (nullishOr (getProp obj (js ''text''))
                  (nullishOr (getProp obj (js ''transcript''))
                    (nullishOr (getProp obj (js ''caption''))
                      (getProp obj (js ''content'')))))] of
        Some direct \<Rightarrow> Some direct
      | None \<Rightarrow>
          firstTruthy
            (map (\<lambda>key. extractTextFromUnknown (getProp obj key))
               [js ''segments'', js ''captions'', js ''items'', js ''data'', js ''results'',
                js ''transcripts'']))"
| "extractTextFromUnknown v = None"
  by pat_completeness auto
termination
proof (relation "measure size", goal_cases)
  case 1
  show ?case by simp
next
  case (2 vs x)
  then show ?case by (simp add: size_list_estimation' less_Suc_eq_le)
next
  case (3 obj)
  have "size (nullishOr (getProp obj (js ''text''))
                  (nullishOr (getProp obj (js ''transcript''))
                    (nullishOr (getProp obj (js ''caption''))
                      (getProp obj (js ''content'')))))
        \<le> size_list (size_prod (\<lambda>k. 0) size) obj"
    by (intro size_nullishOr size_getProp)
  then show ?case by simp
next
  case (4 obj key)
  show ?case using size_getProp [of obj key] by simp
qed

fun firstString :: "(jsstring \<times> jsvalue) list \<Rightarrow> jsstring list \<Rightarrow> jsstring option" where
  "firstString obj [] = None"
| "firstString obj (key # keys) =
     (case getProp obj key of
        JString s \<Rightarrow> if trim s \<noteq> [] then Some (trim s) else firstString obj keys
      | _ \<Rightarrow> firstString obj keys)"

text \<open>\<^verbatim>\<open>text ? [{ text }] : []\<close> and \<^verbatim>\<open>id || undefined\<close>.\<close>

fun textItem :: "jsstring option \<Rightarrow> transcript_item list" where
  "textItem (Some (c # cs)) = [\<lparr>item_id = None, item_title = None, item_text = c # cs\<rparr>]"
| "textItem t = []"

fun orUndefined :: "jsstring option \<Rightarrow> jsstring option" where
  "orUndefined (Some (c # cs)) = Some (c # cs)"
| "orUndefined t = None"

fun itemFromEntry :: "jsvalue \<Rightarrow> transcript_item list" where
  "itemFromEntry JUndefined = []"
| "itemFromEntry JNull = []"
| "itemFromEntry (JString s) = textItem (orNull (trim s))"
| "itemFromEntry (JArray vs) = textItem (extractTextFromUnknown (JArray vs))"
| "itemFromEntry (JObject obj) =
     (let title = firstString obj [js ''title'', js ''video_title'', js ''name''];
          id = firstString obj [js ''id'', js ''video_id'', js ''videoId''];
          text = extractTextFromUnknown
                   (nullishOr (getProp obj (js ''transcript''))
                     (nullishOr (getProp obj (js ''text''))
                       (nullishOr (getProp obj (js ''segments''))
                         (nullishOr (getProp obj (js ''captions''))
                           (nullishOr (getProp obj (js ''items''))
                             (getProp obj (js ''data'')))))))
      in case text of
           Some (c # cs) \<Rightarrow>
             [\<lparr>item_id = orUndefined id, item_title = orUndefined title, item_text = c # cs\<rparr>]
         | _ \<Rightarrow> [])"
| "itemFromEntry v = []"

text \<open>
  The loop over \<^verbatim>\<open>collectionKeys\<close> of \<^verbatim>\<open>extractTranscriptItems\<close>: the items of the first
  key whose value is an array that yields at least one item.
\<close>

fun fromCollections :: "(jsstring \<times> jsvalue) list \<Rightarrow> jsstring list \<Rightarrow> transcript_item list option" where
  "fromCollections obj [] = None"
| "fromCollections obj (key # keys) =
     (case getProp obj key of
        JArray vs \<Rightarrow>
          (let items = concat (map itemFromEntry vs)
           in if length items > 0 then Some items else fromCollections obj keys)
      | _ \<Rightarrow> fromCollections obj keys)"

fun extractTranscriptItems :: "jsvalue \<Rightarrow> transcript_item list" where
  "extractTranscriptItems JUndefined = []"
| "extractTranscriptItems JNull = []"
| "extractTranscriptItems (JString s) = textItem (orNull (trim s))"
| "extractTranscriptItems (JArray vs) =
     (let fromEntries = concat (map itemFromEntry vs)
      in if length fromEntries > 0 then fromEntries
         else textItem (extractTextFromUnknown (JArray vs)))"
| "extractTranscriptItems (JObject obj) =
     (case fromCollections obj [js ''transcripts'', js ''results'', js ''data'', js ''items''] of
        Some items \<Rightarrow> items
      | None \<Rightarrow> textItem (extractTextFromUnknown (JObject obj)))"
| "extractTranscriptItems v = []"

text \<open>A string is trimmed and not empty: \<^verbatim>\<open>trim\<close> leaves it as it is.\<close>

definition trimmed :: "jsstring \<Rightarrow> bool" where
  "trimmed s \<longleftrightarrow> s \<noteq> [] \<and> trim s = s"

subsection \<open>Example payloads\<close>

definition helloWorldPayload :: jsvalue where
  "helloWorldPayload =
     JObject [(js ''data'', JArray [JObject [(js ''text'', JString (js ''hello''))],
                                     JObject [(js ''text'', JString (js ''world''))]])]"

definition videoPayload :: jsvalue where
  "videoPayload =
     JArray [JObject [(js ''id'', JString (js '' dQw4w9WgXcQ'')),
                      (js ''title'', JString (js ''A title '')),
                      (js ''transcript'', JArray [JString (js '' never gonna ''),
                                                  JString (js ''   ''),
                                                  JString (js ''give you up'')])]]"

definition videoItem :: transcript_item where
  "videoItem = \<lparr>item_id = Some (js ''dQw4w9WgXcQ''), item_title = Some (js ''A title''),
                item_text = js ''never gonna give you up''\<rparr>"

text \<open>The text of an item is trimmed and not empty, and so are its id and title when present.\<close>

definition itemOk :: "transcript_item \<Rightarrow> bool" where
  "itemOk it \<longleftrightarrow>
     trimmed (item_text it)
     \<and> (case item_id it of None \<Rightarrow> True | Some i \<Rightarrow> trimmed i)
     \<and> (case item_title it of None \<Rightarrow> True | Some t \<Rightarrow> trimmed t)"

section \<open>Subtitle parser (providers/ytdlp.ts)\<close>

subsection \<open>Regular expressions of the source, as matchers\<close>

text \<open>
  A matcher takes the text at the current position and, when the regular expression
  matches there, gives the text after the match. \<open>Ch\<close> is a literal code unit, \<open>Digit\<close> is
  \<^verbatim>\<open>\d\<close>, \<open>OneOf\<close> a code unit under the flag \<^verbatim>\<open>i\<close>.
\<close>

definition isDigit :: "jschar \<Rightarrow> bool" where
  "isDigit c \<longleftrightarrow> 48 \<le> c \<and> c \<le> 57"

definition isLineTerminator :: "jschar \<Rightarrow> bool" where
  "isLineTerminator c \<longleftrightarrow> c \<in> {10, 13, 8232, 8233}"

datatype atom = Ch jschar | Digit | OneOf "jschar list"

fun matchAtoms :: "atom list \<Rightarrow> jsstring \<Rightarrow> jsstring option" where
  "matchAtoms [] s = Some s"
| "matchAtoms (a # as) [] = None"
| "matchAtoms (Ch x # as) (c # cs) = (if c = x then matchAtoms as cs else None)"
| "matchAtoms (Digit # as) (c # cs) = (if isDigit c then matchAtoms as cs else None)"
| "matchAtoms (OneOf xs # as) (c # cs) = (if c \<in> set xs then matchAtoms as cs else None)"

definition matchLiteral :: "jsstring \<Rightarrow> jsstring \<Rightarrow> jsstring option" where
  "matchLiteral lit s = matchAtoms (map Ch lit) s"

definition startsWith :: "jsstring \<Rightarrow> jsstring \<Rightarrow> bool" where
  "startsWith s lit = (matchLiteral lit s \<noteq> None)"

text \<open>\<^verbatim>\<open>[^>]*>\<close>: everything up to and including the next \<^verbatim>\<open>>\<close>.\<close>

definition closeTag :: "jsstring \<Rightarrow> jsstring option" where
  "closeTag s = (case dropWhile (\<lambda>c. c \<noteq> 62) s of [] \<Rightarrow> None | g # rest \<Rightarrow> Some rest)"

text \<open>\<^verbatim>\<open><\/?c[^>]*>\<close>\<close>

definition matchCTag :: "jsstring \<Rightarrow> jsstring option" where
  "matchCTag s =
     (case matchLiteral (js ''</c'') s of
        Some r \<Rightarrow> closeTag r
      | None \<Rightarrow> (case matchLiteral (js ''<c'') s of Some r \<Rightarrow> closeTag r | None \<Rightarrow> None))"

text \<open>\<^verbatim>\<open><\d{2}:\d{2}:\d{2}\.\d{3}>\<close>\<close>

definition matchTimeTag :: "jsstring \<Rightarrow> jsstring option" where
  "matchTimeTag s =
     matchAtoms [Ch 60, Digit, Digit, Ch 58, Digit, Digit, Ch 58, Digit, Digit, Ch 46,
                 Digit, Digit, Digit, Ch 62] s"

text \<open>\<^verbatim>\<open><[^>]+>\<close>\<close>

fun matchAnyTag :: "jsstring \<Rightarrow> jsstring option" where
  "matchAnyTag (c # d # r) = (if c = 60 \<and> d \<noteq> 62 then closeTag (d # r) else None)"
| "matchAnyTag s = None"

text \<open>\<^verbatim>\<open>\s+\<close>\<close>

fun matchSpaces :: "jsstring \<Rightarrow> jsstring option" where
  "matchSpaces (c # cs) = (if isWhiteSpace c then Some (dropWhile isWhiteSpace cs) else None)"
| "matchSpaces [] = None"

text \<open>\<^verbatim>\<open>\n\n+\<close>\<close>

fun matchBlankLines :: "jsstring \<Rightarrow> jsstring option" where
  "matchBlankLines (c # d # r) =
     (if c = 10 \<and> d = 10 then Some (dropWhile (\<lambda>x. x = 10) r) else None)"
| "matchBlankLines s = None"

text \<open>
  \<^verbatim>\<open>s.replace(/re/g, rep)\<close>: from left to right, each match is replaced and the scan goes
  on after it. No expression of the source matches the empty string, so a match leaves a
  shorter text; the test on the lengths says so to the termination proof.
\<close>

fun replaceAll :: "(jsstring \<Rightarrow> jsstring option) \<Rightarrow> jsstring \<Rightarrow> jsstring \<Rightarrow> jsstring" where
  "replaceAll m rep [] = []"
| "replaceAll m rep (c # cs) =
     (case m (c # cs) of
        None \<Rightarrow> c # replaceAll m rep cs
      | Some rest \<Rightarrow>
          if length rest \<le> length cs then rep @ replaceAll m rep rest
          else c # replaceAll m rep cs)"

text \<open>\<^verbatim>\<open>s.split(sep)\<close>, the piece being collected in \<open>acc\<close>.\<close>

fun splitAcc :: "(jsstring \<Rightarrow> jsstring option) \<Rightarrow> jsstring \<Rightarrow> jsstring \<Rightarrow> jsstring list" where
  "splitAcc m acc [] = [acc]"
| "splitAcc m acc (c # cs) =
     (case m (c # cs) of
        None \<Rightarrow> splitAcc m (acc @ [c]) cs
      | Some rest \<Rightarrow>
          if length rest \<le> length cs then acc # splitAcc m [] rest
          else splitAcc m (acc @ [c]) cs)"

definition splitBlocks :: "jsstring \<Rightarrow> jsstring list" where
  "splitBlocks content = splitAcc matchBlankLines [] content"

definition splitLines :: "jsstring \<Rightarrow> jsstring list" where
  "splitLines block = splitAcc (matchLiteral [10]) [] block"

text \<open>\<^verbatim>\<open>/^\d+$/.test(s)\<close>, \<^verbatim>\<open>/^\[.*\]$/.test(s)\<close> and \<^verbatim>\<open>/^(note).*(note)$/.test(s)\<close> with the note
  sign U+266A; the dot matches no line terminator.\<close>

definition allDigits :: "jsstring \<Rightarrow> bool" where
  "allDigits s \<longleftrightarrow> s \<noteq> [] \<and> list_all isDigit s"

definition enclosedBy :: "jschar \<Rightarrow> jschar \<Rightarrow> jsstring \<Rightarrow> bool" where
  "enclosedBy l r s \<longleftrightarrow>
     2 \<le> length s \<and> hd s = l \<and> last s = r
     \<and> list_all (\<lambda>c. \<not> isLineTerminator c) (butlast (tl s))"

subsection \<open>Cleaning one line\<close>

definition cleanSubtitleLine :: "jsstring \<Rightarrow> jsstring" where
  "cleanSubtitleLine line =
     (let cleaned = replaceAll matchCTag [] line;
          cleaned = replaceAll matchTimeTag [] cleaned;
          cleaned = replaceAll matchAnyTag [] cleaned;
          cleaned = replaceAll (matchLiteral (js ''&nbsp;'')) (js '' '') cleaned;
          cleaned = replaceAll (matchLiteral (js ''&amp;'')) (js ''&'') cleaned;
          cleaned = replaceAll (matchLiteral (js ''&lt;'')) (js ''<'') cleaned;
          cleaned = replaceAll (matchLiteral (js ''&gt;'')) (js ''>'') cleaned;
          cleaned = replaceAll (matchLiteral (js ''&quot;'')) [34] cleaned;
          cleaned = replaceAll (matchLiteral (js ''&#39;'')) [39] cleaned;
          cleaned = trim (replaceAll matchSpaces (js '' '') cleaned)
      in if enclosedBy 91 93 cleaned \<or> enclosedBy 9834 9834 cleaned then []
         else trim (replaceAll (matchLiteral [9834]) [] cleaned))"

subsection \<open>The three parsers\<close>

text \<open>The array \<^verbatim>\<open>lines\<close> and the set \<^verbatim>\<open>seenLines\<close> of the parsers.\<close>

record parse_state =
  lines :: "jsstring list"
  seenLines :: "jsstring set"

definition emptyParse :: parse_state where
  "emptyParse = \<lparr>lines = [], seenLines = {}\<rparr>"

text \<open>The end of each loop body: an empty cleaned line is dropped, a new one is recorded.\<close>

definition pushCleaned :: "jsstring \<Rightarrow> parse_state \<Rightarrow> parse_state" where
  "pushCleaned cleaned st =
     (if cleaned = [] then st
      else if cleaned \<notin> seenLines st
      then st\<lparr>seenLines := insert cleaned (seenLines st), lines := lines st @ [cleaned]\<rparr>
      else st)"

definition vttSkip :: "jsstring \<Rightarrow> bool" where
  "vttSkip line \<longleftrightarrow>
     startsWith line (js ''WEBVTT'') \<or> startsWith line (js ''Kind:'')
     \<or> startsWith line (js ''Language:'') \<or> startsWith line (js ''NOTE'')
     \<or> allDigits (trim line)
     \<or> matchAtoms [Digit, Digit, Ch 58, Digit, Digit] line \<noteq> None
     \<or> str_includes line (js ''-->'')"

definition srtSkip :: "jsstring \<Rightarrow> bool" where
  "srtSkip line \<longleftrightarrow> allDigits (trim line) \<or> str_includes line (js ''-->'')"

text \<open>The inner loop over the lines of a block and the outer loop over the blocks, for
  the skip test of the format.\<close>

fun lineLoop :: "(jsstring \<Rightarrow> bool) \<Rightarrow> jsstring list \<Rightarrow> parse_state \<Rightarrow> parse_state" where
  "lineLoop skip [] st = st"
| "lineLoop skip (line # blockLines) st =
     (if skip line then lineLoop skip blockLines st
      else lineLoop skip blockLines (pushCleaned (cleanSubtitleLine line) st))"

fun blockLoop :: "(jsstring \<Rightarrow> bool) \<Rightarrow> jsstring list \<Rightarrow> parse_state \<Rightarrow> parse_state" where
  "blockLoop skip [] st = st"
| "blockLoop skip (block # blocks) st =
     blockLoop skip blocks (lineLoop skip (splitLines block) st)"

definition parseVtt :: "jsstring \<Rightarrow> jsstring" where
  "parseVtt content =
     join (js '' '') (lines (blockLoop vttSkip (splitBlocks content) emptyParse))"

definition parseSrt :: "jsstring \<Rightarrow> jsstring" where
  "parseSrt content =
     join (js '' '') (lines (blockLoop srtSkip (splitBlocks content) emptyParse))"






subsection \<open>Deduplication, as the specification words it\<close>

text \<open>
  \<open>firstSeen\<close> keeps the first occurrence of every element, in the order of the list.
  \<open>vttCandidates\<close>, \<open>srtCandidates\<close> and \<open>ttmlCandidates\<close> are the cleaned, non-empty lines
  of the whole document, repeats included, in document order.
\<close>

definition firstSeen :: "'a list \<Rightarrow> 'a list" where
  "firstSeen xs = rev (remdups (rev xs))"

definition documentLines :: "jsstring \<Rightarrow> jsstring list" where
  "documentLines content = concat (map splitLines (splitBlocks content))"

definition vttCandidates :: "jsstring \<Rightarrow> jsstring list" where
  "vttCandidates content =
     filter (\<lambda>l. l \<noteq> [])
       (map cleanSubtitleLine (filter (\<lambda>l. \<not> vttSkip l) (documentLines content)))"

definition srtCandidates :: "jsstring \<Rightarrow> jsstring list" where
  "srtCandidates content =
     filter (\<lambda>l. l \<noteq> [])
       (map cleanSubtitleLine (filter (\<lambda>l. \<not> srtSkip l) (documentLines content)))"


subsection \<open>Example documents\<close>



definition cleanLines :: "jsstring list" where
  "cleanLines = [js ''never gonna'', js ''give you up'']"

subsection \<open>The loop invariant of the parsers\<close>

text \<open>
  After the candidates \<open>ys\<close> have gone through the loop, \<^verbatim>\<open>lines\<close> holds their first
  occurrences in order and \<^verbatim>\<open>seenLines\<close> holds them as a set.
\<close>

definition tracks :: "parse_state \<Rightarrow> jsstring list \<Rightarrow> bool" where
  "tracks st ys \<longleftrightarrow> lines st = firstSeen ys \<and> seenLines st = set ys"

section \<open>Properties of the fallback executor\<close>

lemma loopBody_unavailable:
  "p_available p = Returns False \<Longrightarrow>
   loopBody v nf p st = (None, st\<lparr>calls := calls st @ [CallAvailable (p_name p)]\<rparr>)"
  by (simp add: loopBody_def)

lemma loopBody_result:
  "p_available p = Returns True \<Longrightarrow> p_fetch p v = Returns (Some r) \<Longrightarrow>
   loopBody v nf p st =
     (Some (Returns r),
      st\<lparr>calls := calls st @ [CallAvailable (p_name p), CallFetch (p_name p) v]\<rparr>)"
  by (simp add: loopBody_def)

lemma loopBody_fallback:
  "noResult p v \<Longrightarrow> p_available p = Returns True \<Longrightarrow>
   loopBody v False p st =
     (None,
      st\<lparr>calls := calls st @ [CallAvailable (p_name p), CallFetch (p_name p) v],
         errors := errors st @ raisedErrors [p] v,
         stderr := stderr st @
           map (\<lambda>e. js ''['' @ fst e @ js ''] '' @ snd e @ [10]) (raisedErrors [p] v)\<rparr>)"
  by (auto simp add: loopBody_def catchBlock_def noResult_def raisedErrors_def raisedError_def
      List.map_filter_simps split: attempt.splits option.splits)

lemma loopBody_forced_absent:
  "p_available p = Returns True \<Longrightarrow> p_fetch p v = Returns None \<Longrightarrow>
   loopBody v True p st =
     (Some (Raises (js ''['' @ p_name p @ js ''] No transcript available for video '' @ v)),
      st\<lparr>calls := calls st @ [CallAvailable (p_name p), CallFetch (p_name p) v],
         errors := errors st @
           [(p_name p, js ''['' @ p_name p @ js ''] No transcript available for video '' @ v)]\<rparr>)"
  by (simp add: loopBody_def catchBlock_def)

lemma loopBody_forced_raise:
  "p_available p = Returns True \<Longrightarrow> p_fetch p v = Raises e \<Longrightarrow>
   loopBody v True p st =
     (Some (Raises e),
      st\<lparr>calls := calls st @ [CallAvailable (p_name p), CallFetch (p_name p) v],
         errors := errors st @ [(p_name p, e)]\<rparr>)"
  by (simp add: loopBody_def catchBlock_def)

lemma fetchLoop_skip:
  "\<forall>q\<in>set qs. p_available q = Returns False \<Longrightarrow>
   fetchLoop v nf (qs @ ps) st =
     fetchLoop v nf ps (st\<lparr>calls := calls st @ map (\<lambda>q. CallAvailable (p_name q)) qs\<rparr>)"
  by (induction qs arbitrary: st) (simp_all add: loopBody_unavailable)


lemma fetchLoop_no_result:
  "\<forall>p\<in>set ps. p_available p = Returns False \<or> (\<not> nf \<and> noResult p v) \<Longrightarrow>
   fst (fetchLoop v nf ps st) = None \<and>
   errors (snd (fetchLoop v nf ps st)) = errors st @ raisedErrors ps v"
proof (induction ps arbitrary: st)
  case Nil
  show ?case by (simp add: raisedErrors_def List.map_filter_simps)
next
  case (Cons p ps)
  have rest: "\<forall>q\<in>set ps. p_available q = Returns False \<or> (\<not> nf \<and> noResult q v)"
    using Cons.prems by simp
  have step: "fst (loopBody v nf p st) = None \<and>
      errors (snd (loopBody v nf p st)) = errors st @ raisedErrors [p] v"
    using Cons.prems
    by (auto simp add: loopBody_def catchBlock_def noResult_def raisedErrors_def raisedError_def
        List.map_filter_simps split: attempt.splits option.splits bool.splits)
  have app: "raisedErrors (p # ps) v = raisedErrors [p] v @ raisedErrors ps v"
    by (simp add: raisedErrors_def List.map_filter_simps split: option.splits)
  obtain st' where lb: "loopBody v nf p st = (None, st')"
    using step by (cases "loopBody v nf p st") auto
  from step lb have e: "errors st' = errors st @ raisedErrors [p] v" by simp
  show ?case
    using Cons.IH [OF rest, of st'] lb e app by simp
qed

text \<open>
  Claim C1, as the code has it. In a chain \<open>p1, p2, p3, rest\<close> with fallback allowed, where
  \<open>p1\<close> and \<open>p2\<close> are available and each returns \<^verbatim>\<open>null\<close> or raises, and \<open>p3\<close> is available
  and returns a result \<open>r\<close>: \<^verbatim>\<open>fetchTranscript\<close> returns exactly \<open>r\<close>; the attempt log
  holds one entry for each of \<open>p1\<close>, \<open>p2\<close> that raised, with its name and error, and no
  entry for one that returned \<^verbatim>\<open>null\<close>; and the methods invoked are exactly the
  availability check and the fetch of \<open>p1\<close>, \<open>p2\<close>, \<open>p3\<close> in this order, so that no provider
  of \<open>rest\<close> is invoked.
\<close>

theorem fetchTranscript_third_provider_result:
  assumes "p_available p1 = Returns True"
    and "p_fetch p1 v = Returns None \<or> p_fetch p1 v = Raises e1"
    and "p_available p2 = Returns True"
    and "p_fetch p2 v = Returns None \<or> p_fetch p2 v = Raises e2"
    and "p_available p3 = Returns True" and "p_fetch p3 v = Returns (Some r)"
  shows "fst (fetchTranscript v (p1 # p2 # p3 # rest) False) = Returns r
       \<and> errors (snd (fetchTranscript v (p1 # p2 # p3 # rest) False)) =
           (if p_fetch p1 v = Raises e1 then [(p_name p1, e1)] else []) @
           (if p_fetch p2 v = Raises e2 then [(p_name p2, e2)] else [])
       \<and> calls (snd (fetchTranscript v (p1 # p2 # p3 # rest) False)) =
           [CallAvailable (p_name p1), CallFetch (p_name p1) v,
            CallAvailable (p_name p2), CallFetch (p_name p2) v,
            CallAvailable (p_name p3), CallFetch (p_name p3) v]"
  using assms
  by (auto simp add: fetchTranscript_def loopBody_def catchBlock_def init_state_def)

text \<open>
  Claim C1 as stated says that the attempt log has exactly two entries also when the first
  two providers return \<^verbatim>\<open>null\<close>. It has none then: only the \<^verbatim>\<open>catch\<close> block appends to
  the log, and with fallback allowed a \<^verbatim>\<open>null\<close> result throws nothing.
\<close>

theorem fetchTranscript_absent_not_logged:
  "length (errors (snd (fetchTranscript (js ''dQw4w9WgXcQ'')
      [absentProvider (js ''api''), absentProvider (js ''ytdlp''),
       okProvider (js ''whisper'') SourceWhisper] False))) \<noteq> 2"
  by (simp add: fetchTranscript_def loopBody_def init_state_def absentProvider_def okProvider_def)

text \<open>
  The theorem of C1 at a concrete chain: the first provider has no transcript, the second
  raises, the third returns a result and a fourth is never reached.
\<close>

theorem fetchTranscript_third_provider_result_witness:
  "fst (fetchTranscript (js ''dQw4w9WgXcQ'')
      [absentProvider (js ''api''), failingProvider (js ''ytdlp'') (js ''exit code 1''),
       okProvider (js ''whisper'') SourceWhisper, failingProvider (js ''extra'') (js ''boom'')] False)
     = Returns (helloResult SourceWhisper)
   \<and> errors (snd (fetchTranscript (js ''dQw4w9WgXcQ'')
      [absentProvider (js ''api''), failingProvider (js ''ytdlp'') (js ''exit code 1''),
       okProvider (js ''whisper'') SourceWhisper, failingProvider (js ''extra'') (js ''boom'')] False))
     = [(js ''ytdlp'', js ''exit code 1'')]"
  using fetchTranscript_third_provider_result [of "absentProvider (js ''api'')" "js ''dQw4w9WgXcQ''" "[]"
      "failingProvider (js ''ytdlp'') (js ''exit code 1'')" "js ''exit code 1''"
      "okProvider (js ''whisper'') SourceWhisper" "helloResult SourceWhisper"
      "[failingProvider (js ''extra'') (js ''boom'')]"]
  by (simp add: absentProvider_def failingProvider_def okProvider_def)

text \<open>
  Claim C2. With \<^verbatim>\<open>noFallback\<close> set, let \<open>p\<close> be the first provider whose availability
  check passes (the providers \<open>skipped\<close> before it answered that they are unavailable). If
  \<open>p\<close> returns \<^verbatim>\<open>null\<close>, \<^verbatim>\<open>fetchTranscript\<close> throws the error "[name] No transcript
  available for video id"; if \<open>p\<close> raises, it throws that error again; in both cases the
  methods invoked are the availability checks up to \<open>p\<close> and the fetch of \<open>p\<close>, so that no
  provider of \<open>rest\<close> is invoked.
\<close>

theorem fetchTranscript_noFallback_terminal:
  assumes "\<forall>q\<in>set skipped. p_available q = Returns False"
    and "p_available p = Returns True"
    and "p_fetch p v = Returns None \<or> p_fetch p v = Raises e"
  shows "(p_fetch p v = Returns None \<longrightarrow>
            fst (fetchTranscript v (skipped @ p # rest) True) =
              Raises (js ''['' @ p_name p @ js ''] No transcript available for video '' @ v))
       \<and> (p_fetch p v = Raises e \<longrightarrow>
            fst (fetchTranscript v (skipped @ p # rest) True) = Raises e)
       \<and> calls (snd (fetchTranscript v (skipped @ p # rest) True)) =
            map (\<lambda>q. CallAvailable (p_name q)) skipped @
            [CallAvailable (p_name p), CallFetch (p_name p) v]"
  using assms
  by (auto simp add: fetchTranscript_def fetchLoop_skip loopBody_forced_absent
      loopBody_forced_raise init_state_def)

text \<open>
  The theorem of C2 at two concrete chains, one where the attempted provider has no
  transcript and one where it raises.
\<close>

theorem fetchTranscript_noFallback_terminal_witness:
  "fst (fetchTranscript (js ''dQw4w9WgXcQ'')
      [unavailableProvider (js ''api''), absentProvider (js ''ytdlp''),
       okProvider (js ''whisper'') SourceWhisper] True)
     = Raises (js ''[ytdlp] No transcript available for video dQw4w9WgXcQ'')
   \<and> fst (fetchTranscript (js ''dQw4w9WgXcQ'')
      [unavailableProvider (js ''api''), failingProvider (js ''ytdlp'') (js ''exit code 1''),
       okProvider (js ''whisper'') SourceWhisper] True)
     = Raises (js ''exit code 1'')
   \<and> calls (snd (fetchTranscript (js ''dQw4w9WgXcQ'')
      [unavailableProvider (js ''api''), failingProvider (js ''ytdlp'') (js ''exit code 1''),
       okProvider (js ''whisper'') SourceWhisper] True))
     = [CallAvailable (js ''api''), CallAvailable (js ''ytdlp''),
        CallFetch (js ''ytdlp'') (js ''dQw4w9WgXcQ'')]"
  using fetchTranscript_noFallback_terminal [of "[unavailableProvider (js ''api'')]" "absentProvider (js ''ytdlp'')"
      "js ''dQw4w9WgXcQ''" "[]" "[okProvider (js ''whisper'') SourceWhisper]"]
    fetchTranscript_noFallback_terminal [of "[unavailableProvider (js ''api'')]"
      "failingProvider (js ''ytdlp'') (js ''exit code 1'')"
      "js ''dQw4w9WgXcQ''" "js ''exit code 1''" "[okProvider (js ''whisper'') SourceWhisper]"]
  by (simp add: absentProvider_def failingProvider_def unavailableProvider_def js_def)

text \<open>
  Claim C3, as the code has it. When no provider of the chain produces a result (each is
  unavailable or, fallback being allowed, raises or returns \<^verbatim>\<open>null\<close>), \<^verbatim>\<open>fetchTranscript\<close>
  throws the aggregate error: the line naming the video, the line "Tried n provider(s):"
  with the length of the chain, and one line "  - name: error" for each provider that
  raised an error, in chain order. A provider that is unavailable, or that returned
  \<^verbatim>\<open>null\<close>, has no line.
\<close>

theorem fetchTranscript_exhausted_message:
  assumes "\<forall>p\<in>set ps. p_available p = Returns False \<or> (\<not> nf \<and> noResult p v)"
  shows "fst (fetchTranscript v ps nf) =
           Raises (js ''Failed to get transcript for video '' @ v @ js ''.'' @ [10] @
                   js ''Tried '' @ showNat (length ps) @ js '' provider(s):'' @ [10] @
                   join [10] (map (\<lambda>e. js ''  - '' @ fst e @ js '': '' @ snd e)
                                  (raisedErrors ps v)))"
proof -
  obtain st where l: "fetchLoop v nf ps init_state = (None, st)"
    using fetchLoop_no_result [OF assms, of init_state]
    by (cases "fetchLoop v nf ps init_state") auto
  have "errors st = raisedErrors ps v"
    using fetchLoop_no_result [OF assms, of init_state] l by (simp add: init_state_def)
  moreover have "errorLine = (\<lambda>e. js ''  - '' @ fst e @ js '': '' @ snd e)"
    by (rule ext) (simp add: errorLine_def)
  ultimately show ?thesis
    using l by (simp add: fetchTranscript_def allFailedMessage_def)
qed

text \<open>
  Claim C3 as stated promises a line "skipped \<emdash> unavailable" for a provider whose
  availability check is negative. For a chain of one such provider the message does not
  even contain the word "skipped": the loop drops the provider with \<^verbatim>\<open>continue\<close>.
\<close>

theorem fetchTranscript_unavailable_no_line:
  "fst (fetchTranscript (js ''dQw4w9WgXcQ'') [unavailableProvider (js ''ytdlp'')] False) =
     Raises (js ''Failed to get transcript for video dQw4w9WgXcQ.'' @ [10] @
             js ''Tried 1 provider(s):'' @ [10])
 \<and> \<not> str_includes (js ''Failed to get transcript for video dQw4w9WgXcQ.'' @ [10] @
                      js ''Tried 1 provider(s):'' @ [10]) (js ''skipped'')"
  by (simp add: fetchTranscript_def loopBody_def init_state_def unavailableProvider_def
      allFailedMessage_def js_def showNat.simps)

text \<open>
  The theorem of C3 at a concrete chain: an unavailable provider, one that raises and one
  without a transcript give a message with the single line of the provider that raised.
\<close>

theorem fetchTranscript_exhausted_message_witness:
  "fst (fetchTranscript (js ''dQw4w9WgXcQ'')
      [unavailableProvider (js ''api''), failingProvider (js ''ytdlp'') (js ''exit code 1''),
       absentProvider (js ''whisper'')] False)
   = Raises (js ''Failed to get transcript for video dQw4w9WgXcQ.'' @ [10] @
             js ''Tried 3 provider(s):'' @ [10] @ js ''  - ytdlp: exit code 1'')"
  using fetchTranscript_exhausted_message [of "[unavailableProvider (js ''api''),
       failingProvider (js ''ytdlp'') (js ''exit code 1''), absentProvider (js ''whisper'')]"
      False "js ''dQw4w9WgXcQ''"]
  by (simp add: absentProvider_def failingProvider_def unavailableProvider_def js_def
      noResult_def raisedErrors_def raisedError_def List.map_filter_simps showNat.simps)


section \<open>Properties of tool detection and provider resolution\<close>

lemma commandExists_mkHost:
  "commandExists (mkHost tools helps vars) cmd =
     (case map_of tools cmd of
        None \<Rightarrow> None
      | Some path \<Rightarrow> if trim (path @ [10]) = [] then None else Some (trim (path @ [10])))"
  by (simp add: commandExists_def mkHost_def split: option.splits)

lemma help_mkHost:
  "help_output (mkHost tools helps vars) path =
     (case map_of helps path of
        Some out \<Rightarrow> Returns out
      | None \<Rightarrow> Raises (js ''Command failed: '' @ path @ js '' --help 2>&1''))"
  by (simp add: mkHost_def)

lemma env_mkHost: "env (mkHost tools helps vars) = map_of vars"
  by (simp add: mkHost_def)

lemma trim_examples:
  "trim (js ''/usr/bin/whisper'' @ [10]) = js ''/usr/bin/whisper''"
  "trim (js ''/usr/bin/whisper-cpp'' @ [10]) = js ''/usr/bin/whisper-cpp''"
  "trim (js ''/usr/bin/mlx_whisper'' @ [10]) = js ''/usr/bin/mlx_whisper''"
  "trim (js ''/usr/bin/yt-dlp'' @ [10]) = js ''/usr/bin/yt-dlp''"
  "trim (js ''secret'') = js ''secret''"
  by (simp_all add: trim_def js_def isWhiteSpace_def)

lemma js_neq:
  "js ''whisper'' \<noteq> js ''whisper-cpp''" "js ''whisper-cpp'' \<noteq> js ''whisper''"
  "js ''mlx_whisper'' \<noteq> js ''whisper-cpp''" "js ''whisper-cpp'' \<noteq> js ''mlx_whisper''"
  "js ''mlx_whisper'' \<noteq> js ''whisper''" "js ''whisper'' \<noteq> js ''mlx_whisper''"
  "js ''yt-dlp'' \<noteq> js ''whisper''" "js ''yt-dlp'' \<noteq> js ''whisper-cpp''"
  "js ''yt-dlp'' \<noteq> js ''mlx_whisper''"
  "js ''whisper'' \<noteq> js ''yt-dlp''" "js ''whisper-cpp'' \<noteq> js ''yt-dlp''"
  "js ''mlx_whisper'' \<noteq> js ''yt-dlp''"
  "js ''/usr/bin/whisper'' \<noteq> []" "js ''/usr/bin/whisper-cpp'' \<noteq> []"
  "js ''/usr/bin/mlx_whisper'' \<noteq> []" "js ''/usr/bin/yt-dlp'' \<noteq> []" "js ''secret'' \<noteq> []"
  by (simp_all add: js_def)

text \<open>
  Claim C4. When a provider is forced, \<^verbatim>\<open>resolveProviders\<close> either throws at once or returns
  a chain of exactly one provider, the forced one, without warnings. It throws for
  \<^verbatim>\<open>api\<close> exactly when no token is configured, for \<^verbatim>\<open>ytdlp\<close> exactly when yt-dlp is not
  on the path, and for \<^verbatim>\<open>whisper\<close> exactly when yt-dlp is missing or no whisper backend is
  detected. The result depends on the options and the probes of the host only: the
  resolver constructs provider objects and calls none of their methods.
\<close>

theorem resolveProviders_forced:
  "(opt_provider options = Some ChooseApi \<longrightarrow>
      (resolveApiToken h (opt_token options) = [] \<longrightarrow>
         resolveProviders h options = Inl apiTokenRequired)
    \<and> (resolveApiToken h (opt_token options) \<noteq> [] \<longrightarrow>
         resolveProviders h options =
           Inr \<lparr>providers = [ApiProvider (resolveApiToken h (opt_token options))
                                   (resolveApiUrl h (opt_apiUrl options))],
                warnings = []\<rparr>))
 \<and> (opt_provider options = Some ChooseYtdlp \<longrightarrow>
      (\<not> hasYtdlp h \<longrightarrow> resolveProviders h options = Inl ytdlpNotInstalled)
    \<and> (hasYtdlp h \<longrightarrow>
         resolveProviders h options =
           Inr \<lparr>providers = [YtdlpProvider (opt_lang options)], warnings = []\<rparr>))
 \<and> (opt_provider options = Some ChooseWhisper \<longrightarrow>
      (\<not> hasYtdlp h \<longrightarrow> resolveProviders h options = Inl whisperNeedsYtdlp)
    \<and> (hasYtdlp h \<and> detectWhisper h = None \<longrightarrow>
         resolveProviders h options = Inl whisperNoBackend)
    \<and> (hasYtdlp h \<and> detectWhisper h = Some backend \<longrightarrow>
         resolveProviders h options =
           Inr \<lparr>providers = [newWhisperProvider backend (opt_whisperModel options)
                                (opt_lang options)],
                warnings = []\<rparr>))"
  by (simp add: resolveProviders_def Let_def)


text \<open>
  The theorem of C4 at concrete hosts: each forced provider once with its prerequisites
  missing and once with them present.
\<close>

theorem resolveProviders_forced_witness:
  "resolveProviders (mkHost [(js ''yt-dlp'', js ''/usr/bin/yt-dlp'')] [] []) (forced ChooseApi)
     = Inl apiTokenRequired
 \<and> resolveProviders (mkHost [] [] [(js ''YOUTUBE_TRANSCRIPT_API_TOKEN'', js ''secret'')])
       (forced ChooseApi)
     = Inr \<lparr>providers = [ApiProvider (js ''secret'') DEFAULT_API_URL], warnings = []\<rparr>
 \<and> resolveProviders (mkHost [] [] [(js ''YOUTUBE_TRANSCRIPT_API_TOKEN'', js ''secret'')])
       (forced ChooseYtdlp)
     = Inl ytdlpNotInstalled
 \<and> resolveProviders (mkHost [(js ''yt-dlp'', js ''/usr/bin/yt-dlp'')] [] []) (forced ChooseYtdlp)
     = Inr \<lparr>providers = [YtdlpProvider None], warnings = []\<rparr>
 \<and> resolveProviders (mkHost [(js ''mlx_whisper'', js ''/usr/bin/mlx_whisper'')] [] [])
       (forced ChooseWhisper)
     = Inl whisperNeedsYtdlp
 \<and> resolveProviders (mkHost [(js ''yt-dlp'', js ''/usr/bin/yt-dlp'')] []
                         [(js ''YOUTUBE_TRANSCRIPT_API_TOKEN'', js ''secret'')])
       (forced ChooseWhisper)
     = Inl whisperNoBackend
 \<and> resolveProviders (mkHost [(js ''yt-dlp'', js ''/usr/bin/yt-dlp''),
                             (js ''mlx_whisper'', js ''/usr/bin/mlx_whisper'')] [] [])
       (forced ChooseWhisper)
     = Inr \<lparr>providers = [WhisperProvider (MlxWhisper (js ''/usr/bin/mlx_whisper''))
                            (js ''base'') None],
            warnings = []\<rparr>"
  using
    resolveProviders_forced [of "forced ChooseApi" "mkHost [(js ''yt-dlp'', js ''/usr/bin/yt-dlp'')] [] []"]
    resolveProviders_forced [of "forced ChooseApi"
               "mkHost [] [] [(js ''YOUTUBE_TRANSCRIPT_API_TOKEN'', js ''secret'')]"]
    resolveProviders_forced [of "forced ChooseYtdlp"
               "mkHost [] [] [(js ''YOUTUBE_TRANSCRIPT_API_TOKEN'', js ''secret'')]"]
    resolveProviders_forced [of "forced ChooseYtdlp" "mkHost [(js ''yt-dlp'', js ''/usr/bin/yt-dlp'')] [] []"]
    resolveProviders_forced [of "forced ChooseWhisper"
               "mkHost [(js ''mlx_whisper'', js ''/usr/bin/mlx_whisper'')] [] []"]
    resolveProviders_forced [of "forced ChooseWhisper"
               "mkHost [(js ''yt-dlp'', js ''/usr/bin/yt-dlp'')] []
                         [(js ''YOUTUBE_TRANSCRIPT_API_TOKEN'', js ''secret'')]"]
    resolveProviders_forced [of "forced ChooseWhisper"
               "mkHost [(js ''yt-dlp'', js ''/usr/bin/yt-dlp''),
                             (js ''mlx_whisper'', js ''/usr/bin/mlx_whisper'')] [] []"
               "MlxWhisper (js ''/usr/bin/mlx_whisper'')"]
  by (simp add: forced_def autoOptions_def hasYtdlp_def detectWhisper_def commandExists_mkHost
      env_mkHost trim_examples js_neq resolveApiToken_def resolveApiUrl_def
      newWhisperProvider_def)
    (simp add: js_def)



text \<open>
  Claim C6. \<^verbatim>\<open>detectWhisper\<close> takes the first of: the \<^verbatim>\<open>whisper-cpp\<close> binary; the
  \<^verbatim>\<open>whisper\<close> binary, classified as whisper.cpp when its help output contains
  "whisper.cpp", as the Python CLI when it does not, and as the Python CLI when the help
  probe fails; the \<^verbatim>\<open>mlx_whisper\<close> binary; the OpenAI API when \<^verbatim>\<open>OPENAI_API_KEY\<close> is set
  and not empty; otherwise it finds nothing.
\<close>

theorem detectWhisper_priority:
  "(commandExists h (js ''whisper-cpp'') = Some p \<longrightarrow> detectWhisper h = Some (WhisperCpp p))
 \<and> (commandExists h (js ''whisper-cpp'') = None \<and> commandExists h (js ''whisper'') = Some p \<longrightarrow>
       (help_output h p = Returns out \<and> str_includes out (js ''whisper.cpp'') \<longrightarrow>
          detectWhisper h = Some (WhisperCpp p))
     \<and> (help_output h p = Returns out \<and> \<not> str_includes out (js ''whisper.cpp'') \<longrightarrow>
          detectWhisper h = Some (WhisperCli p))
     \<and> (help_output h p = Raises e \<longrightarrow> detectWhisper h = Some (WhisperCli p)))
 \<and> (commandExists h (js ''whisper-cpp'') = None \<and> commandExists h (js ''whisper'') = None \<and>
     commandExists h (js ''mlx_whisper'') = Some p \<longrightarrow> detectWhisper h = Some (MlxWhisper p))
 \<and> (commandExists h (js ''whisper-cpp'') = None \<and> commandExists h (js ''whisper'') = None \<and>
     commandExists h (js ''mlx_whisper'') = None \<longrightarrow>
       (env h (js ''OPENAI_API_KEY'') = Some (c # cs) \<longrightarrow> detectWhisper h = Some OpenaiApi)
     \<and> (env h (js ''OPENAI_API_KEY'') \<in> {None, Some []} \<longrightarrow> detectWhisper h = None))"
  by (auto simp add: detectWhisper_def)

text \<open>
  The theorem of C6 at seven hosts, one for each way out of \<^verbatim>\<open>detectWhisper\<close>.
\<close>

theorem detectWhisper_priority_witness:
  "detectWhisper (mkHost [(js ''whisper-cpp'', js ''/usr/bin/whisper-cpp''),
                          (js ''whisper'', js ''/usr/bin/whisper'')] [] [])
     = Some (WhisperCpp (js ''/usr/bin/whisper-cpp''))
 \<and> detectWhisper (mkHost [(js ''whisper'', js ''/usr/bin/whisper''),
                          (js ''mlx_whisper'', js ''/usr/bin/mlx_whisper'')]
                         [(js ''/usr/bin/whisper'', js ''usage: whisper.cpp [options]'')] [])
     = Some (WhisperCpp (js ''/usr/bin/whisper''))
 \<and> detectWhisper (mkHost [(js ''whisper'', js ''/usr/bin/whisper''),
                          (js ''mlx_whisper'', js ''/usr/bin/mlx_whisper'')]
                         [(js ''/usr/bin/whisper'', js ''usage: whisper [-h] audio'')] [])
     = Some (WhisperCli (js ''/usr/bin/whisper''))
 \<and> detectWhisper (mkHost [(js ''whisper'', js ''/usr/bin/whisper''),
                          (js ''mlx_whisper'', js ''/usr/bin/mlx_whisper'')] [] [])
     = Some (WhisperCli (js ''/usr/bin/whisper''))
 \<and> detectWhisper (mkHost [(js ''mlx_whisper'', js ''/usr/bin/mlx_whisper'')] []
                         [(js ''OPENAI_API_KEY'', js ''secret'')])
     = Some (MlxWhisper (js ''/usr/bin/mlx_whisper''))
 \<and> detectWhisper (mkHost [] [] [(js ''OPENAI_API_KEY'', js ''secret'')]) = Some OpenaiApi
 \<and> detectWhisper (mkHost [] [] []) = None"
  using
    detectWhisper_priority [of "mkHost [(js ''whisper-cpp'', js ''/usr/bin/whisper-cpp''),
                          (js ''whisper'', js ''/usr/bin/whisper'')] [] []"
               "js ''/usr/bin/whisper-cpp''"]
    detectWhisper_priority [of "mkHost [(js ''whisper'', js ''/usr/bin/whisper''),
                          (js ''mlx_whisper'', js ''/usr/bin/mlx_whisper'')]
                         [(js ''/usr/bin/whisper'', js ''usage: whisper.cpp [options]'')] []"
               "js ''/usr/bin/whisper''" "js ''usage: whisper.cpp [options]''"]
    detectWhisper_priority [of "mkHost [(js ''whisper'', js ''/usr/bin/whisper''),
                          (js ''mlx_whisper'', js ''/usr/bin/mlx_whisper'')]
                         [(js ''/usr/bin/whisper'', js ''usage: whisper [-h] audio'')] []"
               "js ''/usr/bin/whisper''" "js ''usage: whisper [-h] audio''"]
    detectWhisper_priority [of "mkHost [(js ''whisper'', js ''/usr/bin/whisper''),
                          (js ''mlx_whisper'', js ''/usr/bin/mlx_whisper'')] [] []"
               "js ''/usr/bin/whisper''" _
               "js ''Command failed: /usr/bin/whisper --help 2>&1''"]
    detectWhisper_priority [of "mkHost [(js ''mlx_whisper'', js ''/usr/bin/mlx_whisper'')] []
                         [(js ''OPENAI_API_KEY'', js ''secret'')]"
               "js ''/usr/bin/mlx_whisper''"]
    detectWhisper_priority [of "mkHost [] [] [(js ''OPENAI_API_KEY'', js ''secret'')]" _ _ _ 115 "js ''ecret''"]
    detectWhisper_priority [of "mkHost [] [] []"]
  by (simp add: commandExists_mkHost help_mkHost env_mkHost trim_examples js_neq)
    (simp add: js_def)


section \<open>Properties of the transcript extractor\<close>

lemma dropWhile_hd_id: "s \<noteq> [] \<Longrightarrow> \<not> P (hd s) \<Longrightarrow> dropWhile P s = s"
  by (cases s) simp_all

lemma trim_id: 
  assumes "s \<noteq> []" "\<not> isWhiteSpace (hd s)" "\<not> isWhiteSpace (last s)"
  shows "trim s = s"
proof -
  have a: "dropWhile isWhiteSpace s = s" using assms by (simp add: dropWhile_hd_id)
  have "rev s \<noteq> []" "\<not> isWhiteSpace (hd (rev s))" using assms by (simp_all add: hd_rev)
  then have "dropWhile isWhiteSpace (rev s) = rev s" by (rule dropWhile_hd_id)
  with a show ?thesis by (simp add: trim_def)
qed

lemma last_dropWhile: "dropWhile P xs \<noteq> [] \<Longrightarrow> last (dropWhile P xs) = last xs"
  by (induction xs) (auto split: if_splits)

lemma trim_ends:
  assumes "trim s \<noteq> []"
  shows "\<not> isWhiteSpace (hd (trim s)) \<and> \<not> isWhiteSpace (last (trim s))"
proof -
  let ?u = "dropWhile isWhiteSpace s"
  let ?w = "dropWhile isWhiteSpace (rev ?u)"
  have w: "?w \<noteq> []" using assms by (simp add: trim_def)
  have u: "?u \<noteq> []"
    using w by (metis dropWhile.simps(1) rev.simps(1))
  have "last (trim s) = hd ?w" using w by (simp add: trim_def last_rev)
  moreover have "\<not> isWhiteSpace (hd ?w)" using w by (rule hd_dropWhile)
  moreover have "hd (trim s) = last ?w" using w by (simp add: trim_def hd_rev)
  moreover have "last ?w = last (rev ?u)" using w by (rule last_dropWhile)
  moreover have "last (rev ?u) = hd ?u" using u by (simp add: last_rev)
  moreover have "\<not> isWhiteSpace (hd ?u)" using u by (rule hd_dropWhile)
  ultimately show ?thesis by simp
qed

lemma trimmed_iff:
  "trimmed s \<longleftrightarrow> s \<noteq> [] \<and> \<not> isWhiteSpace (hd s) \<and> \<not> isWhiteSpace (last s)"
  using trim_id [of s] trim_ends [of s] by (auto simp add: trimmed_def)

lemma trimmed_trim: "trim s \<noteq> [] \<Longrightarrow> trimmed (trim s)"
  using trim_ends [of s] by (simp add: trimmed_iff)

lemma join_ends:
  "xs \<noteq> [] \<Longrightarrow> \<forall>x\<in>set xs. x \<noteq> [] \<Longrightarrow>
   join sep xs \<noteq> [] \<and> hd (join sep xs) = hd (hd xs) \<and> last (join sep xs) = last (last xs)"
  by (induction sep xs rule: join.induct) auto

lemma trimmed_join:
  assumes "xs \<noteq> []" "\<forall>x\<in>set xs. trimmed x"
  shows "trimmed (join sep xs)"
proof -
  have ne: "\<forall>x\<in>set xs. x \<noteq> []" using assms by (simp add: trimmed_iff)
  have "hd xs \<in> set xs" "last xs \<in> set xs" using assms(1) by simp_all
  then have "trimmed (hd xs)" "trimmed (last xs)" using assms(2) by blast+
  then show ?thesis using join_ends [OF assms(1) ne, of sep] by (simp add: trimmed_iff)
qed

lemma join_Nil_iff: "\<forall>x\<in>set xs. x \<noteq> [] \<Longrightarrow> join sep xs = [] \<longleftrightarrow> xs = []"
  using join_ends [of xs sep] by (cases xs) auto

lemma trimmed_filter_trim:
  "\<forall>x\<in>set (filter (\<lambda>s. s \<noteq> []) (map trim ss)). trimmed x"
  by (auto simp add: trimmed_trim)

lemma orNull_join_trimmed:
  "orNull (join sep (filter (\<lambda>s. s \<noteq> []) (map trim ss))) = Some t \<Longrightarrow> trimmed t"
proof -
  assume a: "orNull (join sep (filter (\<lambda>s. s \<noteq> []) (map trim ss))) = Some t"
  let ?xs = "filter (\<lambda>s. s \<noteq> []) (map trim ss)"
  from a have t: "t = join sep ?xs" "join sep ?xs \<noteq> []"
    by (auto simp add: orNull_def split: if_splits)
  then have "?xs \<noteq> []" by auto
  then show ?thesis using trimmed_join [of ?xs sep] trimmed_filter_trim [of ss] t by simp
qed

lemma truthyStrings_set: "set (truthyStrings xs) = {t. t \<noteq> [] \<and> Some t \<in> set xs}"
  by (induction xs rule: truthyStrings.induct) auto

lemma firstTruthy_Some: "firstTruthy xs = Some t \<Longrightarrow> t \<noteq> [] \<and> Some t \<in> set xs"
  by (induction xs rule: firstTruthy.induct) auto

lemma firstTruthy_map_Some:
  "firstTruthy (map f ks) = Some t \<Longrightarrow> \<exists>k\<in>set ks. f k = Some t"
  using firstTruthy_Some [of "map f ks" t] by auto

lemma firstTruthy_single: "firstTruthy [x] = Some t \<Longrightarrow> x = Some t"
  using firstTruthy_Some [of "[x]" t] by auto

lemma extractTextFromUnknown_trimmed:
  "extractTextFromUnknown v = Some t \<Longrightarrow> trimmed t"
proof (induction v arbitrary: t rule: extractTextFromUnknown.induct)
  case (3 s)
  then show ?case by (auto simp add: orNull_def trimmed_trim split: if_splits)
next
  case (4 vs)
  show ?case
  proof (cases "length vs = 0 \<or> list_all isString vs \<or> list_all hasText vs")
    case True
    then show ?thesis using "4.prems" by (auto dest: orNull_join_trimmed split: if_splits)
  next
    case False
    let ?fe = "truthyStrings (map extractTextFromUnknown vs)"
    from False "4.prems" have t: "t = join (js '' '') ?fe" "?fe \<noteq> []"
      by (auto simp add: Let_def split: if_splits)
    have "\<forall>x\<in>set ?fe. trimmed x"
      using "4.IH" False by (auto simp add: truthyStrings_set)
    then show ?thesis using t trimmed_join by simp
  qed
next
  case (5 obj)
  let ?d = "extractTextFromUnknown
                (nullishOr (getProp obj (js ''text''))
                  (nullishOr (getProp obj (js ''transcript''))
                    (nullishOr (getProp obj (js ''caption''))
                      (getProp obj (js ''content'')))))"
  let ?keys = "[js ''segments'', js ''captions'', js ''items'', js ''data'', js ''results'',
                js ''transcripts'']"
  show ?case
  proof (cases "firstTruthy [?d]")
    case None
    with "5.prems"
    have "firstTruthy (map (\<lambda>key. extractTextFromUnknown (getProp obj key)) ?keys) = Some t"
      by (simp only: extractTextFromUnknown.simps option.case)
    then obtain key where "key \<in> set ?keys" "extractTextFromUnknown (getProp obj key) = Some t"
      by (blast dest: firstTruthy_map_Some)
    then show ?thesis using "5.IH"(2) [OF None] by blast
  next
    case (Some d)
    with "5.prems" have "d = t" by (simp only: extractTextFromUnknown.simps option.case option.inject)
    with Some have "?d = Some t" by (blast dest: firstTruthy_single)
    then show ?thesis by (rule "5.IH"(1))
  qed
qed simp_all


lemma orNull_trim_trimmed: "orNull (trim s) = Some t \<Longrightarrow> trimmed t"
  by (auto simp add: orNull_def trimmed_trim split: if_splits)

lemma textItem_ok:
  "it \<in> set (textItem x) \<Longrightarrow> (\<And>t. x = Some t \<Longrightarrow> trimmed t) \<Longrightarrow> itemOk it"
  by (induction x rule: textItem.induct) (auto simp add: itemOk_def)

lemma firstString_trimmed: "firstString obj keys = Some t \<Longrightarrow> trimmed t"
  by (induction obj keys rule: firstString.induct)
    (auto simp add: trimmed_trim split: jsvalue.splits if_splits)

lemma orUndefined_trimmed:
  "(\<And>t. x = Some t \<Longrightarrow> trimmed t) \<Longrightarrow> orUndefined x = Some u \<Longrightarrow> trimmed u"
  by (induction x rule: orUndefined.induct) auto

lemma textItem_extract_ok:
  "it \<in> set (textItem (extractTextFromUnknown v)) \<Longrightarrow> itemOk it"
  by (erule textItem_ok) (erule extractTextFromUnknown_trimmed)

lemma textItem_trim_ok: "it \<in> set (textItem (orNull (trim s))) \<Longrightarrow> itemOk it"
  by (erule textItem_ok) (erule orNull_trim_trimmed)

lemma itemFromEntry_ok: "it \<in> set (itemFromEntry v) \<Longrightarrow> itemOk it"
proof (induction v rule: itemFromEntry.induct)
  case (3 s)
  then show ?case by (simp add: textItem_trim_ok)
next
  case (4 vs)
  then show ?case by (simp del: extractTextFromUnknown.simps add: textItem_extract_ok)
next
  case (5 obj)
  let ?text = "extractTextFromUnknown
                   (nullishOr (getProp obj (js ''transcript''))
                     (nullishOr (getProp obj (js ''text''))
                       (nullishOr (getProp obj (js ''segments''))
                         (nullishOr (getProp obj (js ''captions''))
                           (nullishOr (getProp obj (js ''items''))
                             (getProp obj (js ''data'')))))))"
  let ?id = "orUndefined (firstString obj [js ''id'', js ''video_id'', js ''videoId''])"
  let ?title = "orUndefined (firstString obj [js ''title'', js ''video_title'', js ''name''])"
  from "5.prems" obtain t where t: "?text = Some t"
    and it: "it = \<lparr>item_id = ?id, item_title = ?title, item_text = t\<rparr>"
    by (cases ?text)
      (auto simp del: firstString.simps extractTextFromUnknown.simps
        simp add: Let_def split: list.splits)
  have "trimmed t" using t by (rule extractTextFromUnknown_trimmed)
  moreover have "\<And>u. ?id = Some u \<Longrightarrow> trimmed u"
    by (rule orUndefined_trimmed [OF firstString_trimmed])
  moreover have "\<And>u. ?title = Some u \<Longrightarrow> trimmed u"
    by (rule orUndefined_trimmed [OF firstString_trimmed])
  ultimately show ?case using it by (auto simp add: itemOk_def split: option.splits)
qed simp_all

lemma fromCollections_ok:
  "fromCollections obj keys = Some items \<Longrightarrow> it \<in> set items \<Longrightarrow> itemOk it"
  by (induction obj keys rule: fromCollections.induct)
    (auto simp add: Let_def itemFromEntry_ok split: jsvalue.splits if_splits)

lemma extractTranscriptItems_ok: "it \<in> set (extractTranscriptItems payload) \<Longrightarrow> itemOk it"
proof (induction payload rule: extractTranscriptItems.induct)
  case (3 s)
  then show ?case by (simp add: textItem_trim_ok)
next
  case (4 vs)
  then show ?case
    by (auto simp del: extractTextFromUnknown.simps
        simp add: Let_def itemFromEntry_ok textItem_extract_ok split: if_splits)
next
  case (5 obj)
  then show ?case
    by (auto simp del: extractTextFromUnknown.simps fromCollections.simps
        simp add: textItem_extract_ok split: option.splits intro: fromCollections_ok)
qed simp_all

text \<open>
  Claim C10. For every payload, every record the extractor returns has a text that is not
  empty and is left unchanged by \<^verbatim>\<open>trim\<close>, and its id and its title, when present, are
  not empty and unchanged by \<^verbatim>\<open>trim\<close> as well.
\<close>

theorem extractTranscriptItems_trimmed:
  assumes "it \<in> set (extractTranscriptItems payload)"
  shows "item_text it \<noteq> [] \<and> trim (item_text it) = item_text it
       \<and> (\<forall>i. item_id it = Some i \<longrightarrow> i \<noteq> [] \<and> trim i = i)
       \<and> (\<forall>t. item_title it = Some t \<longrightarrow> t \<noteq> [] \<and> trim t = t)"
  using extractTranscriptItems_ok [OF assms] by (auto simp add: itemOk_def trimmed_def)

lemma videoPayload_items: "extractTranscriptItems videoPayload = [videoItem]"
  by (simp add: videoPayload_def videoItem_def getProp_def orNull_def trim_def isWhiteSpace_def
      js_def)

text \<open>
  The theorem of C10 at a payload whose id, title and transcript lines carry white space:
  the one record returned has all three trimmed.
\<close>

theorem extractTranscriptItems_trimmed_witness:
  "extractTranscriptItems videoPayload = [videoItem]
 \<and> trim (js ''never gonna give you up'') = js ''never gonna give you up''
 \<and> trim (js ''dQw4w9WgXcQ'') = js ''dQw4w9WgXcQ''
 \<and> trim (js ''A title'') = js ''A title''"
  using extractTranscriptItems_trimmed [of videoItem videoPayload] videoPayload_items
  by (simp add: videoItem_def)

text \<open>
  Claim C9 as stated says that the payload \<^verbatim>\<open>{"data": [{"text": "hello"}, {"text": "world"}]}\<close>
  gives one record with the text "hello world". It does not: \<^verbatim>\<open>data\<close> is one of the
  collection keys, so each of its entries becomes a record of its own.
\<close>

theorem extractTranscriptItems_data_two_records:
  "length (extractTranscriptItems helloWorldPayload) \<noteq> 1
 \<and> js ''hello world'' \<notin> set (map item_text (extractTranscriptItems helloWorldPayload))"
  by (simp add: helloWorldPayload_def getProp_def trim_def isWhiteSpace_def orNull_def js_def)

text \<open>
  Claim C9, as the code has it. For the payload \<^verbatim>\<open>{"data": [{"text": "hello"}, {"text": "world"}]}\<close>
  the extractor returns two records, one for each entry of the \<^verbatim>\<open>data\<close> collection, with
  the texts "hello" and "world"; for the string "plain string" it returns one record with
  that text; for \<^verbatim>\<open>null\<close>, \<^verbatim>\<open>undefined\<close> and the empty object it returns no record; and
  for the shapes it does not recognise (an object without any of the known fields, a
  number, a boolean) it returns no record. The
  extractor is a total function: it has no failing branch.
\<close>

theorem extractTranscriptItems_examples:
  "extractTranscriptItems helloWorldPayload =
     [\<lparr>item_id = None, item_title = None, item_text = js ''hello''\<rparr>,
      \<lparr>item_id = None, item_title = None, item_text = js ''world''\<rparr>]
 \<and> extractTranscriptItems (JString (js ''plain string'')) =
     [\<lparr>item_id = None, item_title = None, item_text = js ''plain string''\<rparr>]
 \<and> extractTranscriptItems JNull = []
 \<and> extractTranscriptItems JUndefined = []
 \<and> extractTranscriptItems (JObject []) = []
 \<and> extractTranscriptItems (JObject [(js ''status'', JNumber 404)]) = []
 \<and> extractTranscriptItems (JNumber n) = []
 \<and> extractTranscriptItems (JBool b) = []"
  by (simp add: helloWorldPayload_def getProp_def trim_def isWhiteSpace_def orNull_def js_def)


section \<open>Properties of the subtitle parser\<close>

lemma firstSeen_snoc:
  "firstSeen (xs @ [x]) = (if x \<in> set xs then firstSeen xs else firstSeen xs @ [x])"
  by (simp add: firstSeen_def)

lemma firstSeen_Nil: "firstSeen [] = []"
  by (simp add: firstSeen_def)





lemma tracks_empty: "tracks emptyParse []"
  by (simp add: tracks_def emptyParse_def firstSeen_Nil)

lemma tracks_push:
  "tracks st ys \<Longrightarrow> tracks (pushCleaned c st) (if c = [] then ys else ys @ [c])"
  by (auto simp add: tracks_def pushCleaned_def firstSeen_snoc)

lemma tracks_lineLoop:
  "tracks st ys \<Longrightarrow>
   tracks (lineLoop skip ls st)
     (ys @ filter (\<lambda>l. l \<noteq> []) (map cleanSubtitleLine (filter (\<lambda>l. \<not> skip l) ls)))"
proof (induction ls arbitrary: st ys)
  case Nil
  then show ?case by simp
next
  case (Cons l ls)
  show ?case
  proof (cases "skip l")
    case True
    then show ?thesis using Cons.IH [OF Cons.prems] by simp
  next
    case False
    from Cons.IH [OF tracks_push [OF Cons.prems, of "cleanSubtitleLine l"]] False
    show ?thesis by (cases "cleanSubtitleLine l = []") simp_all
  qed
qed

lemma tracks_blockLoop:
  "tracks st ys \<Longrightarrow>
   tracks (blockLoop skip blocks st)
     (ys @ filter (\<lambda>l. l \<noteq> [])
             (map cleanSubtitleLine
                (filter (\<lambda>l. \<not> skip l) (concat (map splitLines blocks)))))"
proof (induction blocks arbitrary: st ys)
  case Nil
  then show ?case by simp
next
  case (Cons b blocks)
  from Cons.IH [OF tracks_lineLoop [OF Cons.prems, of skip "splitLines b"]]
  show ?case by simp
qed


lemma vtt_lines:
  "lines (blockLoop vttSkip (splitBlocks content) emptyParse) = firstSeen (vttCandidates content)"
  using tracks_blockLoop [OF tracks_empty, of vttSkip "splitBlocks content"]
  by (simp add: tracks_def vttCandidates_def documentLines_def)

lemma srt_lines:
  "lines (blockLoop srtSkip (splitBlocks content) emptyParse) = firstSeen (srtCandidates content)"
  using tracks_blockLoop [OF tracks_empty, of srtSkip "splitBlocks content"]
  by (simp add: tracks_def srtCandidates_def documentLines_def)






lemmas clean_eval = cleanSubtitleLine_def matchCTag_def matchTimeTag_def matchLiteral_def
  closeTag_def js_def isWhiteSpace_def isDigit_def isLineTerminator_def trim_def enclosedBy_def
  Let_def





lemma matchNewline: "matchLiteral [10] (c # cs) = (if c = 10 then Some cs else None)"
  by (simp add: matchLiteral_def)

lemma splitLines_line:
  "10 \<notin> set l \<Longrightarrow>
   splitAcc (matchLiteral [10]) acc (l @ r) = splitAcc (matchLiteral [10]) (acc @ l) r"
  by (induction l arbitrary: acc) (simp_all add: matchNewline)

lemma splitLines_newline:
  "splitAcc (matchLiteral [10]) acc (10 # r) = acc # splitAcc (matchLiteral [10]) [] r"
  by (simp add: matchNewline)

lemma splitLines_join:
  "ls \<noteq> [] \<Longrightarrow> \<forall>l\<in>set ls. 10 \<notin> set l \<Longrightarrow>
   splitAcc (matchLiteral [10]) acc (join [10] ls) = (acc @ hd ls) # tl ls"
proof (induction "[10::nat]" ls arbitrary: acc rule: join.induct)
  case 1
  then show ?case by simp
next
  case (2 x)
  then show ?case using splitLines_line [of x acc "[]"] by simp
next
  case (3 x y ys)
  have "splitAcc (matchLiteral [10]) acc (join [10] (x # y # ys)) =
        splitAcc (matchLiteral [10]) (acc @ x) (10 # join [10] (y # ys))"
    using "3.prems" splitLines_line [of x acc "10 # join [10] (y # ys)"] by simp
  also have "\<dots> = (acc @ x) # splitAcc (matchLiteral [10]) [] (join [10] (y # ys))"
    by (rule splitLines_newline)
  also have "\<dots> = (acc @ x) # y # ys"
    using "3.hyps" [of "[]"] "3.prems" by simp
  finally show ?case by simp
qed

lemma matchBlankLines_other: "c \<noteq> 10 \<Longrightarrow> matchBlankLines (c # s) = None"
  by (cases s) simp_all

lemma matchBlankLines_single: "d \<noteq> 10 \<Longrightarrow> matchBlankLines (10 # d # s) = None"
  by simp

lemma splitBlocks_line:
  "10 \<notin> set l \<Longrightarrow>
   splitAcc matchBlankLines acc (l @ r) = splitAcc matchBlankLines (acc @ l) r"
  by (induction l arbitrary: acc) (simp_all add: matchBlankLines_other)

lemma join_Cons_prefix: "\<exists>r. join sep (y # ys) = y @ r"
  by (cases ys) simp_all

lemma splitBlocks_join:
  "ls \<noteq> [] \<Longrightarrow> \<forall>l\<in>set ls. l \<noteq> [] \<and> 10 \<notin> set l \<Longrightarrow>
   splitAcc matchBlankLines acc (join [10] ls) = [acc @ join [10] ls]"
proof (induction "[10::nat]" ls arbitrary: acc rule: join.induct)
  case 1
  then show ?case by simp
next
  case (2 x)
  then show ?case using splitBlocks_line [of x acc "[]"] by simp
next
  case (3 x y ys)
  obtain c cs where y: "y = c # cs" "c \<noteq> 10"
    using "3.prems" by (cases y) auto
  obtain r where r: "join [10] (y # ys) = c # cs @ r"
    using join_Cons_prefix [of "[10]" y ys] y by auto
  have "splitAcc matchBlankLines acc (join [10] (x # y # ys)) =
        splitAcc matchBlankLines (acc @ x) (10 # join [10] (y # ys))"
    using "3.prems" splitBlocks_line [of x acc "10 # join [10] (y # ys)"] by simp
  also have "\<dots> = splitAcc matchBlankLines (acc @ x @ [10]) (join [10] (y # ys))"
    using r y by simp
  also have "\<dots> = [acc @ x @ [10] @ join [10] (y # ys)]"
    using "3.hyps" [of "acc @ x @ [10]"] "3.prems" by simp
  finally show ?case by simp
qed

lemma documentLines_join:
  assumes "ls \<noteq> []" "\<forall>l\<in>set ls. l \<noteq> [] \<and> 10 \<notin> set l"
  shows "documentLines (join [10] ls) = ls"
proof -
  have "splitBlocks (join [10] ls) = [join [10] ls]"
    using splitBlocks_join [OF assms, of "[]"] by (simp add: splitBlocks_def)
  moreover have "splitLines (join [10] ls) = ls"
    using splitLines_join [of ls "[]"] assms by (simp add: splitLines_def)
  ultimately show ?thesis by (simp add: documentLines_def)
qed

lemma firstSeen_distinct: "distinct xs \<Longrightarrow> firstSeen xs = xs"
  by (simp add: firstSeen_def distinct_remdups_id)

lemma clean_candidates:
  "\<forall>l\<in>set ls. l \<noteq> [] \<and> cleanSubtitleLine l = l \<and> \<not> skip l \<Longrightarrow>
   filter (\<lambda>l. l \<noteq> []) (map cleanSubtitleLine (filter (\<lambda>l. \<not> skip l) ls)) = ls"
  by (induction ls) simp_all

lemma srtSkip_vttSkip: "srtSkip l \<Longrightarrow> vttSkip l"
  by (auto simp add: srtSkip_def vttSkip_def)

text \<open>
  Claim C8, as the code has it. Let a text consist of lines that are not empty, pairwise
  distinct, each a fixpoint of the cleaning step, and none of them a line the parser skips
  (a header or metadata line, a cue number, a timestamp line). Then the line-cue parsers
  return these lines joined by single spaces; a text of one such line is returned
  unchanged.
\<close>

theorem parse_clean_text:
  assumes "ls \<noteq> []" and "distinct ls"
    and "\<forall>l\<in>set ls. l \<noteq> [] \<and> 10 \<notin> set l \<and> cleanSubtitleLine l = l \<and> \<not> vttSkip l"
  shows "parseVtt (join [10] ls) = join (js '' '') ls
       \<and> parseSrt (join [10] ls) = join (js '' '') ls
       \<and> (length ls = 1 \<longrightarrow> parseVtt (join [10] ls) = join [10] ls)"
proof -
  have nl: "\<forall>l\<in>set ls. l \<noteq> [] \<and> 10 \<notin> set l" using assms(3) by blast
  have doc: "documentLines (join [10] ls) = ls" using assms(1) nl by (rule documentLines_join)
  have "\<forall>l\<in>set ls. l \<noteq> [] \<and> cleanSubtitleLine l = l \<and> \<not> vttSkip l" using assms(3) by blast
  then have "filter (\<lambda>l. l \<noteq> []) (map cleanSubtitleLine (filter (\<lambda>l. \<not> vttSkip l) ls)) = ls"
    by (rule clean_candidates)
  then have v: "vttCandidates (join [10] ls) = ls"
    by (simp only: vttCandidates_def doc)
  have "\<forall>l\<in>set ls. l \<noteq> [] \<and> cleanSubtitleLine l = l \<and> \<not> srtSkip l"
    using assms(3) srtSkip_vttSkip by blast
  then have "filter (\<lambda>l. l \<noteq> []) (map cleanSubtitleLine (filter (\<lambda>l. \<not> srtSkip l) ls)) = ls"
    by (rule clean_candidates)
  then have s: "srtCandidates (join [10] ls) = ls"
    by (simp only: srtCandidates_def doc)
  have one: "length ls = 1 \<Longrightarrow> join (js '' '') ls = join [10] ls"
    by (cases ls) simp_all
  show ?thesis
    using v s one assms(2)
    by (simp add: parseVtt_def parseSrt_def vtt_lines srt_lines firstSeen_distinct)
qed

lemma clean_examples:
  "cleanSubtitleLine (js ''never gonna'') = js ''never gonna''"
  "cleanSubtitleLine (js ''give you up'') = js ''give you up''"
  "cleanSubtitleLine (js ''NOTE to self'') = js ''NOTE to self''"
  by (simp_all add: clean_eval)

lemma skip_examples:
  "\<not> vttSkip (js ''never gonna'')" "\<not> vttSkip (js ''give you up'')"
  "vttSkip (js ''NOTE to self'')"
  by (simp_all add: clean_eval vttSkip_def startsWith_def allDigits_def)

text \<open>
  The theorem of C8 at the clean text of two lines "never gonna" and "give you up".
\<close>

theorem parse_clean_text_witness:
  "parseVtt (join [10] cleanLines) = js ''never gonna give you up''
 \<and> parseSrt (join [10] cleanLines) = js ''never gonna give you up''"
  using parse_clean_text [of cleanLines]
  by (simp add: cleanLines_def clean_examples skip_examples) (simp add: js_def)

text \<open>
  Claim C8 as stated says that a text whose lines are distinct fixpoints of the cleaning
  step is returned unchanged. Two such lines come back joined by a space instead of the
  line break, and the single clean line "NOTE to self" is dropped as a metadata line.
\<close>

theorem parse_clean_text_changed:
  "cleanSubtitleLine (js ''never gonna'') = js ''never gonna''
 \<and> cleanSubtitleLine (js ''give you up'') = js ''give you up''
 \<and> parseVtt (js ''never gonna'' @ [10] @ js ''give you up'') \<noteq>
     js ''never gonna'' @ [10] @ js ''give you up''
 \<and> cleanSubtitleLine (js ''NOTE to self'') = js ''NOTE to self''
 \<and> parseVtt (js ''NOTE to self'') \<noteq> js ''NOTE to self''"
proof -
  have a: "parseVtt (js ''never gonna'' @ [10] @ js ''give you up'') = js ''never gonna give you up''"
    by (simp add: parseVtt_def splitBlocks_def splitLines_def emptyParse_def pushCleaned_def
        skip_examples clean_examples matchLiteral_def js_def
        del: lineLoop.simps)
      (simp add: clean_examples [unfolded js_def, simplified] skip_examples [unfolded js_def, simplified]
        pushCleaned_def)
  have b: "parseVtt (js ''NOTE to self'') = []"
    by (simp add: parseVtt_def splitBlocks_def splitLines_def emptyParse_def
        matchLiteral_def js_def del: lineLoop.simps)
      (simp add: skip_examples [unfolded js_def, simplified])
  show ?thesis using a b by (simp add: clean_examples) (simp add: js_def)
qed


end
